theory Spec2Isabelle
  imports Complex_Main "HOL-Library.Word"
begin

unbundle bit_operations_syntax

section \<open>Python values\<close>

text \<open>
  A Python \<open>str\<close> is a sequence of Unicode code points (numbers below \<open>0x110000\<close>);
  a \<open>bytes\<close> object is a sequence of 8-bit values. Literals of the source are ASCII and
  are written through \<open>str_lit\<close>.
\<close>

type_synonym pystr = "nat list"
type_synonym byte = "8 word"
type_synonym bytes = "byte list"

definition str_lit :: "string \<Rightarrow> pystr" where
  "str_lit s = map of_char s"

text \<open>The exceptions the modelled code and library calls can raise.\<close>

datatype py_error =
    UnicodeEncodeError
  | UnicodeDecodeError
  | ValueError
  | OverflowError
  | BinasciiError
  | IndexError

definition and_then :: "py_error + 'a \<Rightarrow> ('a \<Rightarrow> py_error + 'b) \<Rightarrow> py_error + 'b" where
  "and_then r f = (case r of Inl e \<Rightarrow> Inl e | Inr x \<Rightarrow> f x)"

subsection \<open>String operations\<close>

text \<open>\<open>s.startswith(p)\<close>.\<close>

definition startswith :: "pystr \<Rightarrow> pystr \<Rightarrow> bool" where
  "startswith s p = (take (length p) s = p)"

text \<open>\<open>s.split(sep)\<close> for a separator of one character: the pieces between the separators.\<close>

fun split_char :: "nat \<Rightarrow> pystr \<Rightarrow> pystr list" where
  "split_char sep [] = [[]]"
| "split_char sep (c # cs) =
     (if c = sep then [] # split_char sep cs
      else (case split_char sep cs of
              [] \<Rightarrow> [[c]]
            | p # ps \<Rightarrow> (c # p) # ps))"

text \<open>\<open>xs[i]\<close> for an index \<open>i \<ge> 0\<close>: IndexError out of range.\<close>

definition getitem :: "'a list \<Rightarrow> nat \<Rightarrow> py_error + 'a" where
  "getitem xs i = (if i < length xs then Inr (xs ! i) else Inl IndexError)"

text \<open>\<open>k in d\<close> on strings: \<open>k\<close> occurs in \<open>d\<close> as a contiguous substring.\<close>

fun contains :: "pystr \<Rightarrow> pystr \<Rightarrow> bool" where
  "contains [] k = (k = [])"
| "contains (c # cs) k = (startswith (c # cs) k \<or> contains cs k)"

text \<open>\<open>sep.join(parts)\<close>.\<close>

fun join :: "pystr \<Rightarrow> pystr list \<Rightarrow> pystr" where
  "join sep [] = []"
| "join sep [p] = p"
| "join sep (p # q # ps) = p @ sep @ join sep (q # ps)"

subsection \<open>UTF-8: \<open>str.encode()\<close> and \<open>bytes.decode()\<close>\<close>

text \<open>
  \<open>str.encode()\<close> encodes with UTF-8 in strict mode: a surrogate code point
  (\<open>0xD800\<close> to \<open>0xDFFF\<close>) raises UnicodeEncodeError.
\<close>

definition encode_cp :: "nat \<Rightarrow> py_error + bytes" where
  "encode_cp c =
     (if c < 0x80 then Inr [of_nat c]
      else if c < 0x800 then Inr [of_nat (0xC0 + c div 64), of_nat (0x80 + c mod 64)]
      else if c < 0x10000 then
        (if 0xD800 \<le> c \<and> c < 0xE000 then Inl UnicodeEncodeError
         else Inr [of_nat (0xE0 + c div 4096), of_nat (0x80 + c div 64 mod 64),
                   of_nat (0x80 + c mod 64)])
      else if c < 0x110000 then
        Inr [of_nat (0xF0 + c div 262144), of_nat (0x80 + c div 4096 mod 64),
             of_nat (0x80 + c div 64 mod 64), of_nat (0x80 + c mod 64)]
      else Inl UnicodeEncodeError)"

fun str_encode :: "pystr \<Rightarrow> py_error + bytes" where
  "str_encode [] = Inr []"
| "str_encode (c # cs) =
     and_then (encode_cp c) (\<lambda>bs. and_then (str_encode cs) (\<lambda>r. Inr (bs @ r)))"

text \<open>
  \<open>bytes.decode()\<close> decodes UTF-8 in strict mode: a stray or missing continuation byte,
  an overlong form, a surrogate or a value above \<open>0x10FFFF\<close> raises UnicodeDecodeError.
\<close>

definition is_cont :: "byte \<Rightarrow> bool" where
  "is_cont b = (0x80 \<le> unat b \<and> unat b < 0xC0)"

definition cont_bits :: "byte \<Rightarrow> nat" where
  "cont_bits b = unat b - 0x80"

fun bytes_decode :: "bytes \<Rightarrow> py_error + pystr" where
  "bytes_decode [] = Inr []"
| "bytes_decode (b0 # bs) =
     (if unat b0 < 0x80 then
        and_then (bytes_decode bs) (\<lambda>r. Inr (unat b0 # r))
      else if unat b0 < 0xC2 then Inl UnicodeDecodeError
      else if unat b0 < 0xE0 then
        (case bs of
           b1 # r1 \<Rightarrow>
             if is_cont b1 then
               and_then (bytes_decode r1)
                 (\<lambda>r. Inr (((unat b0 - 0xC0) * 64 + cont_bits b1) # r))
             else Inl UnicodeDecodeError
         | _ \<Rightarrow> Inl UnicodeDecodeError)
      else if unat b0 < 0xF0 then
        (case bs of
           b1 # b2 # r2 \<Rightarrow>
             (let c = (unat b0 - 0xE0) * 4096 + cont_bits b1 * 64 + cont_bits b2
              in if is_cont b1 \<and> is_cont b2 \<and> 0x800 \<le> c \<and> \<not> (0xD800 \<le> c \<and> c < 0xE000) then
                   and_then (bytes_decode r2) (\<lambda>r. Inr (c # r))
                 else Inl UnicodeDecodeError)
         | _ \<Rightarrow> Inl UnicodeDecodeError)
      else if unat b0 < 0xF5 then
        (case bs of
           b1 # b2 # b3 # r3 \<Rightarrow>
             (let c = (unat b0 - 0xF0) * 262144 + cont_bits b1 * 4096 + cont_bits b2 * 64
                      + cont_bits b3
              in if is_cont b1 \<and> is_cont b2 \<and> is_cont b3 \<and> 0x10000 \<le> c \<and> c < 0x110000 then
                   and_then (bytes_decode r3) (\<lambda>r. Inr (c # r))
                 else Inl UnicodeDecodeError)
         | _ \<Rightarrow> Inl UnicodeDecodeError)
      else Inl UnicodeDecodeError)"

subsection \<open>Base64: \<open>base64.b64encode\<close> and \<open>base64.b64decode\<close>\<close>

definition b64_alphabet :: "bytes" where
  "b64_alphabet =
     map of_char ''ABCDEFGHIJKLMNOPQRSTUVWXYZabcdefghijklmnopqrstuvwxyz0123456789+/''"

definition b64_pad :: "byte" where
  "b64_pad = 0x3D"

definition b64_char :: "byte \<Rightarrow> byte" where
  "b64_char v = b64_alphabet ! unat v"

text \<open>\<open>base64.b64encode(bs)\<close>: the standard alphabet, padded with \<open>=\<close>, no newline.\<close>

fun b64encode :: "bytes \<Rightarrow> bytes" where
  "b64encode [] = []"
| "b64encode [b0] =
     [b64_char (drop_bit 2 b0), b64_char (push_bit 4 (b0 AND 3)), b64_pad, b64_pad]"
| "b64encode [b0, b1] =
     [b64_char (drop_bit 2 b0), b64_char (push_bit 4 (b0 AND 3) OR drop_bit 4 b1),
      b64_char (push_bit 2 (b1 AND 15)), b64_pad]"
| "b64encode (b0 # b1 # b2 # bs) =
     [b64_char (drop_bit 2 b0), b64_char (push_bit 4 (b0 AND 3) OR drop_bit 4 b1),
      b64_char (push_bit 2 (b1 AND 15) OR drop_bit 6 b2), b64_char (b2 AND 63)]
     @ b64encode bs"

text \<open>The decoding table: the 6-bit value of a character of the alphabet, or none.\<close>

definition b64_value :: "byte \<Rightarrow> byte option" where
  "b64_value c =
     (let n = unat c in
      if 65 \<le> n \<and> n \<le> 90 then Some (of_nat (n - 65))
      else if 97 \<le> n \<and> n \<le> 122 then Some (of_nat (n - 71))
      else if 48 \<le> n \<and> n \<le> 57 then Some (of_nat (n + 4))
      else if n = 43 then Some 62
      else if n = 47 then Some 63
      else None)"

text \<open>
  \<open>binascii.a2b_base64\<close> in its default, non-strict mode, as \<open>base64.b64decode\<close> calls
  it: characters outside the alphabet are skipped; a \<open>=\<close> counts as padding only once
  two or three characters of a quad have been read, and ends the input when it completes
  the quad; input that ends inside a quad raises \<open>binascii.Error\<close>. The state is the
  position in the quad, the bits left over from the previous character and the number
  of padding characters seen since the last data character.
\<close>

fun a2b_base64 :: "nat \<Rightarrow> byte \<Rightarrow> nat \<Rightarrow> bytes \<Rightarrow> py_error + bytes" where
  "a2b_base64 quad_pos leftchar pads [] =
     (if quad_pos \<noteq> 0 then Inl BinasciiError else Inr [])"
| "a2b_base64 quad_pos leftchar pads (this_ch # rest) =
     (if this_ch = b64_pad then
        (if quad_pos \<ge> 2 \<and> quad_pos + (pads + 1) \<ge> 4 then Inr []
         else a2b_base64 quad_pos leftchar (if quad_pos \<ge> 2 then pads + 1 else pads) rest)
      else
        (case b64_value this_ch of
           None \<Rightarrow> a2b_base64 quad_pos leftchar pads rest
         | Some v \<Rightarrow>
             (if quad_pos = 0 then a2b_base64 1 v 0 rest
              else if quad_pos = 1 then
                and_then (a2b_base64 2 (v AND 0x0F) 0 rest)
                  (\<lambda>out. Inr ((push_bit 2 leftchar OR drop_bit 4 v) # out))
              else if quad_pos = 2 then
                and_then (a2b_base64 3 (v AND 0x03) 0 rest)
                  (\<lambda>out. Inr ((push_bit 4 leftchar OR drop_bit 2 v) # out))
              else
                and_then (a2b_base64 0 0 0 rest)
                  (\<lambda>out. Inr ((push_bit 6 leftchar OR v) # out)))))"

text \<open>
  \<open>base64.b64decode(s)\<close> on a \<open>str\<close> argument: the string is first encoded as ASCII
  (ValueError on a character above 127), then decoded.
\<close>

definition b64decode :: "pystr \<Rightarrow> py_error + bytes" where
  "b64decode s =
     (if \<exists>c \<in> set s. c > 127 then Inl ValueError
      else a2b_base64 0 0 0 (map of_nat s))"

section \<open>Python numbers\<close>

subsection \<open>\<open>str(i)\<close> of an integer\<close>

function str_digits :: "int \<Rightarrow> pystr" where
  "str_digits i = (if i < 10 then [nat (48 + i)] else str_digits (i div 10) @ [nat (48 + i mod 10)])"
  by pat_completeness auto
termination
  by (relation "measure nat") auto

declare str_digits.simps [simp del]

definition str_int :: "int \<Rightarrow> pystr" where
  "str_int i = (if i < 0 then 45 # str_digits (- i) else str_digits i)"

subsection \<open>Floats\<close>

text \<open>
  A Python \<open>float\<close> is an IEEE 754 binary64 value: a finite value with its sign (True
  for negative, so that \<open>-0.0\<close> is \<open>Finite True 0\<close>) and its magnitude, an infinity, or
  not-a-number. The magnitude of a finite float is a rational \<open>m * 2 ^ e\<close> with
  \<open>m < 2 ^ 53\<close> and \<open>-1074 \<le> e\<close>, below \<open>2 ^ 1024\<close>; \<open>round_double\<close> yields only such
  values.
\<close>

datatype pyfloat = Finite bool rat | Infinite bool | NaN

text \<open>The number of binary and of decimal digits of a positive integer (0 for 0).\<close>

function bit_length :: "int \<Rightarrow> int" where
  "bit_length n = (if n \<le> 0 then 0 else 1 + bit_length (n div 2))"
  by pat_completeness auto
termination
  by (relation "measure nat") auto

declare bit_length.simps [simp del]

function dec_length :: "int \<Rightarrow> int" where
  "dec_length n = (if n \<le> 0 then 0 else 1 + dec_length (n div 10))"
  by pat_completeness auto
termination
  by (relation "measure nat") auto

declare dec_length.simps [simp del]

text \<open>For \<open>q > 0\<close>: the \<open>e\<close> with \<open>2 ^ e \<le> q < 2 ^ (e + 1)\<close>, and the same to base 10.\<close>

definition floor_log2 :: "rat \<Rightarrow> int" where
  "floor_log2 q =
     (if 1 \<le> q then bit_length \<lfloor>q\<rfloor> - 1 else - bit_length (\<lceil>1 / q\<rceil> - 1))"

definition floor_log10 :: "rat \<Rightarrow> int" where
  "floor_log10 q =
     (if 1 \<le> q then dec_length \<lfloor>q\<rfloor> - 1 else - dec_length (\<lceil>1 / q\<rceil> - 1))"

definition round_half_even :: "rat \<Rightarrow> int" where
  "round_half_even x =
     (let f = \<lfloor>x\<rfloor>; d = x - of_int f
      in if d < 1 / 2 then f
         else if d > 1 / 2 then f + 1
         else if even f then f else f + 1)"

text \<open>
  Rounding a magnitude \<open>q \<ge> 0\<close> to the nearest binary64 value, ties to even: 53
  significant bits, exponents from \<open>-1022\<close> (subnormals below), infinity from
  \<open>2 ^ 1024\<close> on.
\<close>

definition round_double :: "bool \<Rightarrow> rat \<Rightarrow> pyfloat" where
  "round_double s q =
     (if q = 0 then Finite s 0
      else
        (let e = floor_log2 q;
             p = max e (- 1022) - 52;
             r = of_int (round_half_even (q / 2 powi p)) * 2 powi p
         in if r \<ge> 2 powi 1024 then Infinite s else Finite s r))"

text \<open>A float literal of the source, and \<open>float(i)\<close> of an integer.\<close>

definition float_lit :: "rat \<Rightarrow> pyfloat" where
  "float_lit q = round_double (q < 0) \<bar>q\<bar>"

text \<open>\<open>x * y\<close> on floats.\<close>

fun float_mul :: "pyfloat \<Rightarrow> pyfloat \<Rightarrow> pyfloat" where
  "float_mul NaN y = NaN"
| "float_mul x NaN = NaN"
| "float_mul (Infinite s) (Infinite t) = Infinite (s \<noteq> t)"
| "float_mul (Infinite s) (Finite t q) = (if q = 0 then NaN else Infinite (s \<noteq> t))"
| "float_mul (Finite s p) (Infinite t) = (if p = 0 then NaN else Infinite (s \<noteq> t))"
| "float_mul (Finite s p) (Finite t q) = round_double (s \<noteq> t) (p * q)"

text \<open>
  \<open>int(x)\<close> of a float: truncation towards zero; ValueError on not-a-number,
  OverflowError on an infinity.
\<close>

fun int_of_float :: "pyfloat \<Rightarrow> py_error + int" where
  "int_of_float NaN = Inl ValueError"
| "int_of_float (Infinite s) = Inl OverflowError"
| "int_of_float (Finite s q) = Inr (if s then - \<lfloor>q\<rfloor> else \<lfloor>q\<rfloor>)"

subsection \<open>\<open>repr\<close> of a float\<close>

text \<open>
  \<open>repr(x)\<close>, which \<open>f"{x}"\<close> and \<open>str(x)\<close> give: the shortest decimal digit string
  that rounds back to \<open>x\<close>, the nearest to \<open>x\<close> among the strings of that length;
  printed with an exponent when the decimal point falls more than 16 digits right or
  more than 3 zeros left of the first digit, and with \<open>.0\<close> appended to a whole number.
  A digit string is a pair \<open>(c, e)\<close> for the value \<open>c * 10 ^ e\<close>.
\<close>

function strip_zeros :: "int \<Rightarrow> int \<Rightarrow> int \<times> int" where
  "strip_zeros c e = (if c \<le> 0 \<or> c mod 10 \<noteq> 0 then (c, e) else strip_zeros (c div 10) (e + 1))"
  by pat_completeness auto
termination
  by (relation "measure (\<lambda>(c, e). nat c)") auto

declare strip_zeros.simps [simp del]

definition roundtrips :: "rat \<Rightarrow> int \<Rightarrow> int \<Rightarrow> bool" where
  "roundtrips q c e = (c > 0 \<and> round_double False (of_int c * 10 powi e) = Finite False q)"

definition shortest_at :: "rat \<Rightarrow> int \<Rightarrow> (int \<times> int) option" where
  "shortest_at q n =
     (let e = floor_log10 q - n + 1;
          lo = \<lfloor>q / 10 powi e\<rfloor>;
          hi = lo + 1;
          dl = q - of_int lo * 10 powi e;
          dh = of_int hi * 10 powi e - q
      in if roundtrips q lo e \<and> roundtrips q hi e then
           (if dl < dh then Some (lo, e)
            else if dh < dl then Some (hi, e)
            else if even lo then Some (lo, e) else Some (hi, e))
         else if roundtrips q lo e then Some (lo, e)
         else if roundtrips q hi e then Some (hi, e)
         else None)"

fun first_shortest :: "rat \<Rightarrow> int list \<Rightarrow> (int \<times> int) option" where
  "first_shortest q [] = None"
| "first_shortest q (n # ns) =
     (case shortest_at q n of Some r \<Rightarrow> Some r | None \<Rightarrow> first_shortest q ns)"

definition shortest_digits :: "rat \<Rightarrow> int \<times> int" where
  "shortest_digits q =
     (case first_shortest q [1, 2, 3, 4, 5, 6, 7, 8, 9, 10, 11, 12, 13, 14, 15, 16, 17] of
        Some (c, e) \<Rightarrow> strip_zeros c e
      | None \<Rightarrow>
          (let e = floor_log10 q - 16
           in strip_zeros (round_half_even (q / 10 powi e)) e))"

definition float_repr_mag :: "rat \<Rightarrow> pystr" where
  "float_repr_mag q =
     (if q = 0 then str_lit ''0.0''
      else
        (case shortest_digits q of (c, e) \<Rightarrow>
           (let ds = str_digits c;
                n = int (length ds);
                decpt = n + e
            in if decpt \<le> - 4 \<or> decpt > 16 then
                 take 1 ds @ (if n > 1 then 46 # drop 1 ds else [])
                 @ [101] @ (if decpt - 1 < 0 then [45] else [43])
                 @ (if \<bar>decpt - 1\<bar> < 10 then [48] else []) @ str_digits \<bar>decpt - 1\<bar>
               else if decpt \<le> 0 then
                 str_lit ''0.'' @ replicate (nat (- decpt)) 48 @ ds
               else if decpt \<ge> n then
                 ds @ replicate (nat (decpt - n)) 48 @ str_lit ''.0''
               else
                 take (nat decpt) ds @ [46] @ drop (nat decpt) ds)))"

fun float_repr :: "pyfloat \<Rightarrow> pystr" where
  "float_repr NaN = str_lit ''nan''"
| "float_repr (Infinite s) = (if s then str_lit ''-inf'' else str_lit ''inf'')"
| "float_repr (Finite s q) = (if s then [45] else []) @ float_repr_mag q"

section \<open>Hash functions: \<open>hashlib.md5\<close> and \<open>hashlib.sha256\<close>\<close>

type_synonym u32 = "32 word"

function chunks :: "nat \<Rightarrow> 'a list \<Rightarrow> 'a list list" where
  "chunks n xs = (if xs = [] \<or> n = 0 then [] else take n xs # chunks n (drop n xs))"
  by pat_completeness auto
termination
  by (relation "measure (\<lambda>(n, xs). length xs)") auto

declare chunks.simps [simp del]

text \<open>
  The padding both functions share: a byte \<open>0x80\<close>, zero bytes up to 56 modulo 64, then
  the length of the message in bits as 8 bytes (appended by the caller, in its byte
  order).
\<close>

definition pad_zeros :: "bytes \<Rightarrow> bytes" where
  "pad_zeros m = m @ [0x80] @ replicate ((119 - length m mod 64) mod 64) 0"

definition bit_count :: "bytes \<Rightarrow> 64 word" where
  "bit_count m = 8 * of_nat (length m)"

text \<open>\<open>hexdigest()\<close>: two lowercase hexadecimal digits for each byte.\<close>

definition hex_digit :: "byte \<Rightarrow> nat" where
  "hex_digit v = (if v < 10 then 48 + unat v else 87 + unat v)"

definition hexlify :: "bytes \<Rightarrow> pystr" where
  "hexlify bs = concat (map (\<lambda>b. [hex_digit (drop_bit 4 b), hex_digit (b AND 15)]) bs)"

subsection \<open>MD5 (RFC 1321)\<close>

definition md5_K :: "u32 list" where
  "md5_K =
     [0xd76aa478, 0xe8c7b756, 0x242070db, 0xc1bdceee, 0xf57c0faf, 0x4787c62a, 0xa8304613, 0xfd469501,
      0x698098d8, 0x8b44f7af, 0xffff5bb1, 0x895cd7be, 0x6b901122, 0xfd987193, 0xa679438e, 0x49b40821,
      0xf61e2562, 0xc040b340, 0x265e5a51, 0xe9b6c7aa, 0xd62f105d, 0x02441453, 0xd8a1e681, 0xe7d3fbc8,
      0x21e1cde6, 0xc33707d6, 0xf4d50d87, 0x455a14ed, 0xa9e3e905, 0xfcefa3f8, 0x676f02d9, 0x8d2a4c8a,
      0xfffa3942, 0x8771f681, 0x6d9d6122, 0xfde5380c, 0xa4beea44, 0x4bdecfa9, 0xf6bb4b60, 0xbebfbc70,
      0x289b7ec6, 0xeaa127fa, 0xd4ef3085, 0x04881d05, 0xd9d4d039, 0xe6db99e5, 0x1fa27cf8, 0xc4ac5665,
      0xf4292244, 0x432aff97, 0xab9423a7, 0xfc93a039, 0x655b59c3, 0x8f0ccc92, 0xffeff47d, 0x85845dd1,
      0x6fa87e4f, 0xfe2ce6e0, 0xa3014314, 0x4e0811a1, 0xf7537e82, 0xbd3af235, 0x2ad7d2bb, 0xeb86d391]"

definition md5_S :: "nat list" where
  "md5_S =
     [7, 12, 17, 22, 7, 12, 17, 22, 7, 12, 17, 22, 7, 12, 17, 22,
      5, 9, 14, 20, 5, 9, 14, 20, 5, 9, 14, 20, 5, 9, 14, 20,
      4, 11, 16, 23, 4, 11, 16, 23, 4, 11, 16, 23, 4, 11, 16, 23,
      6, 10, 15, 21, 6, 10, 15, 21, 6, 10, 15, 21, 6, 10, 15, 21]"

definition le_bytes :: "nat \<Rightarrow> 'a::len word \<Rightarrow> bytes" where
  "le_bytes n w = map (\<lambda>i. ucast (drop_bit (8 * i) w)) [0..<n]"

definition word_le :: "bytes \<Rightarrow> u32" where
  "word_le bs = foldr (\<lambda>b acc. ucast b OR push_bit 8 acc) bs 0"

definition md5_f :: "nat \<Rightarrow> u32 \<Rightarrow> u32 \<Rightarrow> u32 \<Rightarrow> u32" where
  "md5_f i b c d =
     (if i < 16 then (b AND c) OR (NOT b AND d)
      else if i < 32 then (d AND b) OR (NOT d AND c)
      else if i < 48 then b XOR c XOR d
      else c XOR (b OR NOT d))"

definition md5_g :: "nat \<Rightarrow> nat" where
  "md5_g i =
     (if i < 16 then i
      else if i < 32 then (5 * i + 1) mod 16
      else if i < 48 then (3 * i + 5) mod 16
      else (7 * i) mod 16)"

fun md5_step :: "u32 list \<Rightarrow> u32 \<times> u32 \<times> u32 \<times> u32 \<Rightarrow> nat \<Rightarrow> u32 \<times> u32 \<times> u32 \<times> u32" where
  "md5_step M (a, b, c, d) i =
     (let f = md5_f i b c d + a + md5_K ! i + M ! md5_g i
      in (d, b + word_rotl (md5_S ! i) f, b, c))"

fun md5_block :: "u32 \<times> u32 \<times> u32 \<times> u32 \<Rightarrow> bytes \<Rightarrow> u32 \<times> u32 \<times> u32 \<times> u32" where
  "md5_block (a0, b0, c0, d0) blk =
     (case foldl (md5_step (map word_le (chunks 4 blk))) (a0, b0, c0, d0) [0..<64] of
        (a, b, c, d) \<Rightarrow> (a0 + a, b0 + b, c0 + c, d0 + d))"

definition md5 :: "bytes \<Rightarrow> bytes" where
  "md5 m =
     (case foldl md5_block (0x67452301, 0xefcdab89, 0x98badcfe, 0x10325476)
             (chunks 64 (pad_zeros m @ le_bytes 8 (bit_count m))) of
        (a, b, c, d) \<Rightarrow> concat (map (le_bytes 4) [a, b, c, d]))"

definition md5_hexdigest :: "bytes \<Rightarrow> pystr" where
  "md5_hexdigest m = hexlify (md5 m)"

subsection \<open>SHA-256 (FIPS 180-4)\<close>

definition sha256_K :: "u32 list" where
  "sha256_K =
     [0x428A2F98, 0x71374491, 0xB5C0FBCF, 0xE9B5DBA5, 0x3956C25B, 0x59F111F1, 0x923F82A4, 0xAB1C5ED5,
      0xD807AA98, 0x12835B01, 0x243185BE, 0x550C7DC3, 0x72BE5D74, 0x80DEB1FE, 0x9BDC06A7, 0xC19BF174,
      0xE49B69C1, 0xEFBE4786, 0x0FC19DC6, 0x240CA1CC, 0x2DE92C6F, 0x4A7484AA, 0x5CB0A9DC, 0x76F988DA,
      0x983E5152, 0xA831C66D, 0xB00327C8, 0xBF597FC7, 0xC6E00BF3, 0xD5A79147, 0x06CA6351, 0x14292967,
      0x27B70A85, 0x2E1B2138, 0x4D2C6DFC, 0x53380D13, 0x650A7354, 0x766A0ABB, 0x81C2C92E, 0x92722C85,
      0xA2BFE8A1, 0xA81A664B, 0xC24B8B70, 0xC76C51A3, 0xD192E819, 0xD6990624, 0xF40E3585, 0x106AA070,
      0x19A4C116, 0x1E376C08, 0x2748774C, 0x34B0BCB5, 0x391C0CB3, 0x4ED8AA4A, 0x5B9CCA4F, 0x682E6FF3,
      0x748F82EE, 0x78A5636F, 0x84C87814, 0x8CC70208, 0x90BEFFFA, 0xA4506CEB, 0xBEF9A3F7, 0xC67178F2]"

definition sha256_H0 :: "u32 list" where
  "sha256_H0 =
     [0x6A09E667, 0xBB67AE85, 0x3C6EF372, 0xA54FF53A, 0x510E527F, 0x9B05688C, 0x1F83D9AB, 0x5BE0CD19]"

definition be_bytes :: "nat \<Rightarrow> 'a::len word \<Rightarrow> bytes" where
  "be_bytes n w = rev (le_bytes n w)"

definition word_be :: "bytes \<Rightarrow> u32" where
  "word_be bs = foldl (\<lambda>acc b. push_bit 8 acc OR ucast b) 0 bs"

definition ssig0 :: "u32 \<Rightarrow> u32" where
  "ssig0 x = word_rotr 7 x XOR word_rotr 18 x XOR drop_bit 3 x"

definition ssig1 :: "u32 \<Rightarrow> u32" where
  "ssig1 x = word_rotr 17 x XOR word_rotr 19 x XOR drop_bit 10 x"

definition bsig0 :: "u32 \<Rightarrow> u32" where
  "bsig0 x = word_rotr 2 x XOR word_rotr 13 x XOR word_rotr 22 x"

definition bsig1 :: "u32 \<Rightarrow> u32" where
  "bsig1 x = word_rotr 6 x XOR word_rotr 11 x XOR word_rotr 25 x"

text \<open>The message schedule: 16 words of the block, extended to 64.\<close>

definition sha256_extend :: "u32 list \<Rightarrow> nat \<Rightarrow> u32 list" where
  "sha256_extend w i =
     w @ [ssig1 (w ! (i - 2)) + w ! (i - 7) + ssig0 (w ! (i - 15)) + w ! (i - 16)]"

definition sha256_schedule :: "bytes \<Rightarrow> u32 list" where
  "sha256_schedule blk = foldl sha256_extend (map word_be (chunks 4 blk)) [16..<64]"

fun sha256_round :: "u32 list \<Rightarrow> u32 \<times> u32 \<Rightarrow> u32 list" where
  "sha256_round [a, b, c, d, e, f, g, h] (k, w) =
     (let t1 = h + bsig1 e + ((e AND f) XOR (NOT e AND g)) + k + w;
          t2 = bsig0 a + ((a AND b) XOR (a AND c) XOR (b AND c))
      in [t1 + t2, a, b, c, d + t1, e, f, g])"
| "sha256_round st kw = st"

definition sha256_block :: "u32 list \<Rightarrow> bytes \<Rightarrow> u32 list" where
  "sha256_block st blk =
     map2 (+) st (foldl sha256_round st (zip sha256_K (sha256_schedule blk)))"

definition sha256 :: "bytes \<Rightarrow> bytes" where
  "sha256 m =
     concat (map (be_bytes 4)
       (foldl sha256_block sha256_H0 (chunks 64 (pad_zeros m @ be_bytes 8 (bit_count m)))))"

definition sha256_hexdigest :: "bytes \<Rightarrow> pystr" where
  "sha256_hexdigest m = hexlify (sha256 m)"

section \<open>Payme: checkout URL\<close>

text \<open>
  The result dictionary of \<open>payme_generate_checkout_url\<close>, each key \<open>k\<close> as the field
  \<open>co_k\<close>.
\<close>

record checkout_result =
  co_success :: bool
  co_payment_url :: pystr
  co_environment :: pystr
  co_amount_uzs :: pyfloat
  co_amount_tiyin :: int
  co_order_id :: pystr
  co_encoded_params :: pystr
  co_instructions :: pystr

text \<open>
  The parameter string \<open>f"m={merchant_id};ac.{account};a={amount_in_tiyin};c={return_url}"\<close>
  with \<open>account = f"order_id={order_id}"\<close>.
\<close>

definition payme_params :: "pystr \<Rightarrow> int \<Rightarrow> pystr \<Rightarrow> pystr \<Rightarrow> pystr" where
  "payme_params merchant_id amount_in_tiyin order_id return_url =
     (let account = str_lit ''order_id='' @ order_id
      in str_lit ''m='' @ merchant_id @ str_lit '';ac.'' @ account
         @ str_lit '';a='' @ str_int amount_in_tiyin @ str_lit '';c='' @ return_url)"

text \<open>
  \<open>int(amount * 100)\<close> raises on an infinite or not-a-number product, \<open>params.encode()\<close>
  on a surrogate; the function has no \<open>try\<close>, so either leaves it as an exception.
\<close>

definition payme_generate_checkout_url ::
  "pystr \<Rightarrow> pyfloat \<Rightarrow> pystr \<Rightarrow> pystr \<Rightarrow> bool \<Rightarrow> py_error + checkout_result" where
  "payme_generate_checkout_url merchant_id amount order_id return_url is_production =
     and_then (int_of_float (float_mul amount (float_lit 100))) (\<lambda>amount_in_tiyin.
     let params = payme_params merchant_id amount_in_tiyin order_id return_url in
     and_then (str_encode params) (\<lambda>raw.
     and_then (bytes_decode (b64encode raw)) (\<lambda>encoded_params.
     let checkout_base_url =
           (if is_production then str_lit ''https://checkout.paycom.uz''
            else str_lit ''https://checkout.test.paycom.uz'');
         payment_url = checkout_base_url @ str_lit ''/'' @ encoded_params
     in Inr \<lparr>co_success = True,
             co_payment_url = payment_url,
             co_environment = (if is_production then str_lit ''production'' else str_lit ''test''),
             co_amount_uzs = amount,
             co_amount_tiyin = amount_in_tiyin,
             co_order_id = order_id,
             co_encoded_params = encoded_params,
             co_instructions = str_lit ''Redirect user to this URL to complete payment''\<rparr>)))"

section \<open>Payme: webhook authorization\<close>

text \<open>
  The result dictionary of \<open>payme_verify_webhook_auth\<close>, each key \<open>k\<close> as the field
  \<open>auth_k\<close>: the key \<open>valid\<close> is always present; \<open>reason\<close> is present on the two
  failure returns, \<open>decoded_auth\<close> and \<open>message\<close> on the return after decoding. The two reason strings are
  "Authorization must use Basic authentication" and "Error verifying authorization: "
  followed by the text of the caught exception, which is the library's.
\<close>

datatype reason = Must_Use_Basic | Error_Verifying py_error

record auth_result =
  auth_valid :: bool
  auth_reason :: "reason option"
  auth_decoded_auth :: "pystr option"
  auth_message :: "pystr option"

text \<open>The body of the \<open>try\<close> block: any exception leaves it as \<open>Inl\<close>.\<close>

definition payme_verify_webhook_auth_try :: "pystr \<Rightarrow> pystr \<Rightarrow> py_error + auth_result" where
  "payme_verify_webhook_auth_try authorization_header merchant_key =
     (if \<not> startswith authorization_header (str_lit ''Basic '') then
        Inr \<lparr>auth_valid = False, auth_reason = Some Must_Use_Basic, auth_decoded_auth = None,
             auth_message = None\<rparr>
      else
        and_then (getitem (split_char 32 authorization_header) 1) (\<lambda>token.
        and_then (b64decode token) (\<lambda>raw.
        and_then (bytes_decode raw) (\<lambda>decoded.
          let is_valid = contains decoded merchant_key
          in Inr \<lparr>auth_valid = is_valid,
                  auth_reason = None,
                  auth_decoded_auth = Some (if is_valid then decoded else str_lit ''[hidden]''),
                  auth_message =
                    Some (if is_valid then str_lit ''Valid Payme webhook authentication''
                          else str_lit ''Invalid merchant key'')\<rparr>))))"

text \<open>The whole function: \<open>except Exception\<close> turns every exception into a result.\<close>

definition payme_verify_webhook_auth :: "pystr \<Rightarrow> pystr \<Rightarrow> auth_result" where
  "payme_verify_webhook_auth authorization_header merchant_key =
     (case payme_verify_webhook_auth_try authorization_header merchant_key of
        Inr r \<Rightarrow> r
      | Inl e \<Rightarrow>
          \<lparr>auth_valid = False, auth_reason = Some (Error_Verifying e),
           auth_decoded_auth = None, auth_message = None\<rparr>)"

section \<open>Click: invoice URL\<close>

text \<open>
  The values of the \<open>params\<close> dictionary are strings and one float; \<open>f"{k}={v}"\<close> formats
  a string as itself and a float by its \<open>repr\<close>. The dictionary keeps insertion order:
  it is a list of pairs, and an assignment to a key replaces its value in place or
  appends the new key.
\<close>

datatype pyval = Str pystr | Float pyfloat

fun format_val :: "pyval \<Rightarrow> pystr" where
  "format_val (Str s) = s"
| "format_val (Float x) = float_repr x"

fun dict_set :: "(pystr \<times> pyval) list \<Rightarrow> pystr \<Rightarrow> pyval \<Rightarrow> (pystr \<times> pyval) list" where
  "dict_set [] k v = [(k, v)]"
| "dict_set ((k', v') # kvs) k v =
     (if k' = k then (k, v) # kvs else (k', v') # dict_set kvs k v)"

text \<open>The truth value of an \<open>Optional[str]\<close>: false for \<open>None\<close> and for the empty string.\<close>

fun truthy :: "pystr option \<Rightarrow> bool" where
  "truthy None = False"
| "truthy (Some s) = (s \<noteq> [])"

text \<open>
  The result dictionary of \<open>click_generate_invoice_url\<close>, each key \<open>k\<close> as the field
  \<open>inv_k\<close>.
\<close>

record invoice_result =
  inv_success :: bool
  inv_invoice_url :: pystr
  inv_environment :: pystr
  inv_amount :: pyfloat
  inv_transaction_param :: pystr
  inv_instructions :: pystr

definition click_generate_invoice_url ::
  "pystr \<Rightarrow> pystr \<Rightarrow> pyfloat \<Rightarrow> pystr \<Rightarrow> pystr \<Rightarrow> pystr option \<Rightarrow> bool \<Rightarrow> invoice_result" where
  "click_generate_invoice_url service_id merchant_id amount transaction_param return_url
       merchant_user_id is_production =
     (let base_url =
            (if is_production then str_lit ''https://my.click.uz/services/pay''
             else str_lit ''https://my.click.uz/services/pay'');
          params =
            [(str_lit ''service_id'', Str service_id),
             (str_lit ''merchant_id'', Str merchant_id),
             (str_lit ''amount'', Float amount),
             (str_lit ''transaction_param'', Str transaction_param),
             (str_lit ''return_url'', Str return_url)];
          params' =
            (case merchant_user_id of
               Some u \<Rightarrow>
                 if truthy merchant_user_id
                 then dict_set params (str_lit ''merchant_user_id'') (Str u)
                 else params
             | None \<Rightarrow> params);
          query_string =
            join (str_lit ''&'') (map (\<lambda>(k, v). k @ str_lit ''='' @ format_val v) params');
          invoice_url = base_url @ str_lit ''?'' @ query_string
      in \<lparr>inv_success = True,
          inv_invoice_url = invoice_url,
          inv_environment = (if is_production then str_lit ''production'' else str_lit ''test''),
          inv_amount = amount,
          inv_transaction_param = transaction_param,
          inv_instructions = str_lit ''Redirect user to this URL to complete Click payment''\<rparr>)"

section \<open>Click and Octo: webhook signatures\<close>

text \<open>
  The result dictionary of \<open>click_verify_webhook_signature\<close> and of
  \<open>octo_verify_webhook_signature\<close>, each key \<open>k\<close> as the field \<open>sig_k\<close>.
\<close>

record signature_result =
  sig_valid :: bool
  sig_expected_signature :: pystr
  sig_received_signature :: pystr
  sig_message :: pystr

text \<open>The string that Click signs: the seven fields of the f-string, without separators.\<close>

definition click_sign_string ::
  "pystr \<Rightarrow> pystr \<Rightarrow> pystr \<Rightarrow> pystr \<Rightarrow> pyfloat \<Rightarrow> int \<Rightarrow> pystr \<Rightarrow> pystr" where
  "click_sign_string click_trans_id service_id secret_key merchant_trans_id amount action sign_time =
     click_trans_id @ service_id @ secret_key @ merchant_trans_id @ float_repr amount
     @ str_int action @ sign_time"

definition click_verify_webhook_signature ::
  "pystr \<Rightarrow> pystr \<Rightarrow> pystr \<Rightarrow> pystr \<Rightarrow> pyfloat \<Rightarrow> int \<Rightarrow> pystr \<Rightarrow> pystr
     \<Rightarrow> py_error + signature_result" where
  "click_verify_webhook_signature click_trans_id service_id secret_key merchant_trans_id amount
       action sign_time received_sign_string =
     (let sign_string =
            click_sign_string click_trans_id service_id secret_key merchant_trans_id amount
              action sign_time
      in and_then (str_encode sign_string) (\<lambda>raw.
         let expected_signature = md5_hexdigest raw;
             is_valid = (expected_signature = received_sign_string)
         in Inr \<lparr>sig_valid = is_valid,
                 sig_expected_signature = expected_signature,
                 sig_received_signature = received_sign_string,
                 sig_message =
                   (if is_valid then str_lit ''Signature is valid''
                    else str_lit ''Invalid signature - potential security issue'')\<rparr>))"

definition octo_verify_webhook_signature ::
  "pystr \<Rightarrow> pystr \<Rightarrow> pystr \<Rightarrow> pystr \<Rightarrow> py_error + signature_result" where
  "octo_verify_webhook_signature octo_payment_uuid status received_signature secret_key =
     (let sign_string = octo_payment_uuid @ status @ secret_key
      in and_then (str_encode sign_string) (\<lambda>raw.
         let expected_signature = sha256_hexdigest raw;
             is_valid = (expected_signature = received_signature)
         in Inr \<lparr>sig_valid = is_valid,
                 sig_expected_signature = expected_signature,
                 sig_received_signature = received_signature,
                 sig_message =
                   (if is_valid then str_lit ''Valid Octo webhook''
                    else str_lit ''Invalid signature'')\<rparr>))"

section \<open>Properties\<close>

subsection \<open>Strings\<close>

lemma and_then_Inr [simp]: "and_then (Inr x) f = f x"
  by (simp add: and_then_def)

lemma and_then_Inl [simp]: "and_then (Inl e) f = Inl e"
  by (simp add: and_then_def)

lemma startswith_iff: "startswith s p \<longleftrightarrow> (\<exists>t. s = p @ t)"
  unfolding startswith_def
  by (metis append_eq_conv_conj append_take_drop_id)

text \<open>\<open>contains d k\<close> is the substring relation.\<close>

lemma contains_iff: "contains d k \<longleftrightarrow> (\<exists>p s. d = p @ k @ s)"
proof (induction d)
  case Nil
  then show ?case by auto
next
  case (Cons c cs)
  show ?case
  proof
    assume "contains (c # cs) k"
    then consider "startswith (c # cs) k" | "contains cs k" by auto
    then show "\<exists>p s. c # cs = p @ k @ s"
    proof cases
      case 1
      then obtain t where "c # cs = k @ t" by (auto simp: startswith_iff)
      then have "c # cs = [] @ k @ t" by simp
      then show ?thesis by blast
    next
      case 2
      then obtain p s where "cs = p @ k @ s" using Cons.IH by auto
      then have "c # cs = (c # p) @ k @ s" by simp
      then show ?thesis by blast
    qed
  next
    assume "\<exists>p s. c # cs = p @ k @ s"
    then obtain p s where ps: "c # cs = p @ k @ s" by auto
    show "contains (c # cs) k"
    proof (cases p)
      case Nil
      with ps have "startswith (c # cs) k" by (auto simp: startswith_iff)
      then show ?thesis by simp
    next
      case (Cons a p')
      with ps have "cs = p' @ k @ s" by simp
      then have "contains cs k" using Cons.IH by auto
      then show ?thesis by simp
    qed
  qed
qed

lemma contains_empty: "contains d []"
  by (induction d) (auto simp: startswith_def)

lemma split_char_no_sep: "sep \<notin> set xs \<Longrightarrow> split_char sep xs = [xs]"
  by (induction xs) auto

lemma split_char_append:
  "sep \<notin> set xs \<Longrightarrow> split_char sep (xs @ sep # rest) = xs # split_char sep rest"
  by (induction xs) auto

lemma split_char_nonempty: "split_char sep xs \<noteq> []"
  by (induction xs) (auto split: list.splits)

lemma str_lit_Basic: "str_lit ''Basic '' = [66, 97, 115, 105, 99] @ [32]"
  by (simp add: str_lit_def)

subsection \<open>Payme: webhook authorization\<close>

text \<open>After the prefix \<open>"Basic "\<close>, \<open>split(" ")[1]\<close> always exists: no IndexError.\<close>

lemma token_of_header:
  assumes "startswith h (str_lit ''Basic '')"
  shows "\<exists>token. getitem (split_char 32 h) 1 = Inr token"
proof -
  from assms obtain t where h: "h = [66, 97, 115, 105, 99] @ 32 # t"
    by (auto simp: startswith_iff str_lit_Basic)
  have "split_char 32 h = [66, 97, 115, 105, 99] # split_char 32 t"
    unfolding h by (rule split_char_append) simp
  moreover obtain p ps where "split_char 32 t = p # ps"
    using split_char_nonempty [of 32 t] by (cases "split_char 32 t") auto
  ultimately show ?thesis by (simp add: getitem_def)
qed

lemma token_of_basic_header:
  assumes "32 \<notin> set token"
  shows "getitem (split_char 32 (str_lit ''Basic '' @ token)) 1 = Inr token"
proof -
  have "split_char 32 ([66, 97, 115, 105, 99] @ 32 # token)
          = [66, 97, 115, 105, 99] # split_char 32 token"
    by (rule split_char_append) simp
  then show ?thesis
    using assms by (simp add: str_lit_Basic split_char_no_sep getitem_def)
qed

lemma payme_auth_decoded:
  assumes "startswith h (str_lit ''Basic '')"
    and "getitem (split_char 32 h) 1 = Inr token"
    and "b64decode token = Inr raw"
    and "bytes_decode raw = Inr d"
  shows "payme_verify_webhook_auth h k =
           \<lparr>auth_valid = contains d k, auth_reason = None,
            auth_decoded_auth = Some (if contains d k then d else str_lit ''[hidden]''),
            auth_message =
              Some (if contains d k then str_lit ''Valid Payme webhook authentication''
                    else str_lit ''Invalid merchant key'')\<rparr>"
  using assms
  by (simp add: payme_verify_webhook_auth_def payme_verify_webhook_auth_try_def Let_def)

lemma payme_auth_error:
  assumes "startswith h (str_lit ''Basic '')"
    and "getitem (split_char 32 h) 1 = Inr token"
    and "and_then (b64decode token) bytes_decode = Inl e"
  shows "payme_verify_webhook_auth h k =
           \<lparr>auth_valid = False, auth_reason = Some (Error_Verifying e),
            auth_decoded_auth = None, auth_message = None\<rparr>"
  using assms
  by (cases "b64decode token")
     (auto simp: payme_verify_webhook_auth_def payme_verify_webhook_auth_try_def Let_def)

lemma payme_auth_wrong_scheme:
  assumes "\<not> startswith h (str_lit ''Basic '')"
  shows "payme_verify_webhook_auth h k =
           \<lparr>auth_valid = False, auth_reason = Some Must_Use_Basic,
            auth_decoded_auth = None, auth_message = None\<rparr>"
  using assms
  by (simp add: payme_verify_webhook_auth_def payme_verify_webhook_auth_try_def)

lemma startswith_Basic_append: "startswith (str_lit ''Basic '' @ t) (str_lit ''Basic '')"
  by (simp add: startswith_def)

lemma and_then_InlE:
  assumes "and_then r f = Inl e"
  obtains "r = Inl e" | x where "r = Inr x" "f x = Inl e"
  using assms by (cases r) auto

text \<open>The only exceptions that decoding the token can raise.\<close>

lemma a2b_base64_error: "a2b_base64 q l p cs = Inl e \<Longrightarrow> e = BinasciiError"
proof (induction cs arbitrary: q l p)
  case Nil
  then show ?case by (simp split: if_splits)
next
  case (Cons c cs)
  show ?case
  proof (cases "c = b64_pad")
    case True
    with Cons.prems Cons.IH show ?thesis
      by (simp split: if_splits)
  next
    case False
    show ?thesis
    proof (cases "b64_value c")
      case None
      with False Cons.prems Cons.IH show ?thesis by simp
    next
      case (Some v)
      with False Cons.prems have
        "(if q = 0 then a2b_base64 1 v 0 cs
          else if q = 1 then
            and_then (a2b_base64 2 (v AND 0x0F) 0 cs)
              (\<lambda>out. Inr ((push_bit 2 l OR drop_bit 4 v) # out))
          else if q = 2 then
            and_then (a2b_base64 3 (v AND 0x03) 0 cs)
              (\<lambda>out. Inr ((push_bit 4 l OR drop_bit 2 v) # out))
          else
            and_then (a2b_base64 0 0 0 cs)
              (\<lambda>out. Inr ((push_bit 6 l OR v) # out))) = Inl e"
        by simp
      then show ?thesis
        using Cons.IH by (auto split: if_splits elim!: and_then_InlE)
    qed
  qed
qed

lemma b64decode_error: "b64decode s = Inl e \<Longrightarrow> e = ValueError \<or> e = BinasciiError"
  by (auto simp: b64decode_def dest: a2b_base64_error split: if_splits)

lemma bytes_decode_error: "bytes_decode bs = Inl e \<Longrightarrow> e = UnicodeDecodeError"
proof (induction bs rule: bytes_decode.induct)
  case 1
  then show ?case by simp
next
  case (2 b0 bs)
  from "2.prems" show ?case
    apply (simp only: bytes_decode.simps Let_def split: if_splits list.splits)
          apply (erule and_then_InlE; use "2.IH" in simp)
          apply simp_all
      apply (erule and_then_InlE; use "2.IH" in simp)
     apply (erule and_then_InlE; use "2.IH" in \<open>simp add: Let_def\<close>)
    apply (erule and_then_InlE; use "2.IH" in \<open>simp add: Let_def\<close>)
    done
qed

lemma decode_token_error:
  "and_then (b64decode token) bytes_decode = Inl e \<Longrightarrow>
     e = ValueError \<or> e = BinasciiError \<or> e = UnicodeDecodeError"
  by (cases "b64decode token") (auto dest: b64decode_error bytes_decode_error)

text \<open>
  C4. For every header and key the function returns a result dictionary; no exception
  leaves it. A header that does not start with \<open>"Basic "\<close> gives \<open>valid = False\<close> with the
  reason "Authorization must use Basic authentication". With the prefix, the token
  \<open>split(" ")[1]\<close> always exists, and when its base64 or UTF-8 decoding raises \<open>e\<close> (a
  ValueError for a non-ASCII token, a \<open>binascii.Error\<close> or a UnicodeDecodeError), the
  result is \<open>valid = False\<close> with the reason "Error verifying authorization: " and the
  text of \<open>e\<close>.
\<close>

theorem payme_verify_webhook_auth_never_raises:
  "(\<not> startswith h (str_lit ''Basic '') \<longrightarrow>
      payme_verify_webhook_auth h k =
        \<lparr>auth_valid = False, auth_reason = Some Must_Use_Basic,
         auth_decoded_auth = None, auth_message = None\<rparr>)
   \<and> (startswith h (str_lit ''Basic '') \<longrightarrow>
        (\<exists>token. getitem (split_char 32 h) 1 = Inr token
           \<and> (\<forall>e. and_then (b64decode token) bytes_decode = Inl e \<longrightarrow>
                 (e = ValueError \<or> e = BinasciiError \<or> e = UnicodeDecodeError)
                 \<and> payme_verify_webhook_auth h k =
                     \<lparr>auth_valid = False, auth_reason = Some (Error_Verifying e),
                      auth_decoded_auth = None, auth_message = None\<rparr>)))"
proof (intro conjI impI)
  assume "\<not> startswith h (str_lit ''Basic '')"
  then show "payme_verify_webhook_auth h k =
        \<lparr>auth_valid = False, auth_reason = Some Must_Use_Basic,
         auth_decoded_auth = None, auth_message = None\<rparr>"
    by (rule payme_auth_wrong_scheme)
next
  assume sw: "startswith h (str_lit ''Basic '')"
  then obtain token where tok: "getitem (split_char 32 h) 1 = Inr token"
    using token_of_header by blast
  show "\<exists>token. getitem (split_char 32 h) 1 = Inr token
           \<and> (\<forall>e. and_then (b64decode token) bytes_decode = Inl e \<longrightarrow>
                 (e = ValueError \<or> e = BinasciiError \<or> e = UnicodeDecodeError)
                 \<and> payme_verify_webhook_auth h k =
                     \<lparr>auth_valid = False, auth_reason = Some (Error_Verifying e),
                      auth_decoded_auth = None, auth_message = None\<rparr>)"
    using tok payme_auth_error [OF sw tok] decode_token_error by blast
qed

theorem payme_verify_webhook_auth_never_raises_witness:
  "payme_verify_webhook_auth (str_lit ''Digest abc'') (str_lit ''key'') =
     \<lparr>auth_valid = False, auth_reason = Some Must_Use_Basic,
      auth_decoded_auth = None, auth_message = None\<rparr>
   \<and> payme_verify_webhook_auth (str_lit ''Basic YQ'') (str_lit ''key'') =
     \<lparr>auth_valid = False, auth_reason = Some (Error_Verifying BinasciiError),
      auth_decoded_auth = None, auth_message = None\<rparr>
   \<and> payme_verify_webhook_auth (str_lit ''Basic /w=='') (str_lit ''key'') =
     \<lparr>auth_valid = False, auth_reason = Some (Error_Verifying UnicodeDecodeError),
      auth_decoded_auth = None, auth_message = None\<rparr>"
proof -
  have n1: "\<not> startswith (str_lit ''Digest abc'') (str_lit ''Basic '')"
    by (simp add: startswith_def str_lit_def)
  have s2: "startswith (str_lit ''Basic YQ'') (str_lit ''Basic '')"
    by (simp add: startswith_def str_lit_def)
  have t2: "getitem (split_char 32 (str_lit ''Basic YQ'')) 1 = Inr (str_lit ''YQ'')"
    by (simp add: getitem_def str_lit_def)
  have e2: "and_then (b64decode (str_lit ''YQ'')) bytes_decode = Inl BinasciiError"
    by (simp add: str_lit_def b64decode_def b64_value_def b64_pad_def)
  have s3: "startswith (str_lit ''Basic /w=='') (str_lit ''Basic '')"
    by (simp add: startswith_def str_lit_def)
  have t3: "getitem (split_char 32 (str_lit ''Basic /w=='')) 1 = Inr (str_lit ''/w=='')"
    by (simp add: getitem_def str_lit_def)
  have e3: "and_then (b64decode (str_lit ''/w=='')) bytes_decode = Inl UnicodeDecodeError"
    by (simp add: str_lit_def b64decode_def b64_value_def b64_pad_def)
  note thm1 = payme_verify_webhook_auth_never_raises [of "str_lit ''Digest abc''" "str_lit ''key''"]
  note thm2 = payme_verify_webhook_auth_never_raises [of "str_lit ''Basic YQ''" "str_lit ''key''"]
  note thm3 = payme_verify_webhook_auth_never_raises [of "str_lit ''Basic /w==''" "str_lit ''key''"]
  from thm1 n1 have r1: "payme_verify_webhook_auth (str_lit ''Digest abc'') (str_lit ''key'') =
     \<lparr>auth_valid = False, auth_reason = Some Must_Use_Basic,
      auth_decoded_auth = None, auth_message = None\<rparr>" by blast
  from thm2 s2 t2 e2 have r2: "payme_verify_webhook_auth (str_lit ''Basic YQ'') (str_lit ''key'') =
     \<lparr>auth_valid = False, auth_reason = Some (Error_Verifying BinasciiError),
      auth_decoded_auth = None, auth_message = None\<rparr>" by auto
  from thm3 s3 t3 e3 have r3: "payme_verify_webhook_auth (str_lit ''Basic /w=='') (str_lit ''key'') =
     \<lparr>auth_valid = False, auth_reason = Some (Error_Verifying UnicodeDecodeError),
      auth_decoded_auth = None, auth_message = None\<rparr>" by auto
  from r1 r2 r3 show ?thesis by blast
qed

text \<open>
  C5. For a header \<open>"Basic <token>"\<close> whose token decodes to the string \<open>d\<close>, the result
  is valid exactly when the merchant key occurs in \<open>d\<close> as a substring; the key
  \<open>decoded_auth\<close> holds \<open>d\<close> when it is valid and \<open>"[hidden]"\<close> when it is not.
\<close>

theorem payme_verify_webhook_auth_substring:
  assumes "32 \<notin> set token"
    and "b64decode token = Inr raw"
    and "bytes_decode raw = Inr d"
  shows "(auth_valid (payme_verify_webhook_auth (str_lit ''Basic '' @ token) merchant_key)
            \<longleftrightarrow> (\<exists>p s. d = p @ merchant_key @ s))
       \<and> auth_decoded_auth (payme_verify_webhook_auth (str_lit ''Basic '' @ token) merchant_key)
            = Some (if \<exists>p s. d = p @ merchant_key @ s then d else str_lit ''[hidden]'')"
  using payme_auth_decoded [OF startswith_Basic_append token_of_basic_header [OF assms(1)]
      assms(2) assms(3), of merchant_key]
  by (simp add: contains_iff)

theorem payme_verify_webhook_auth_substring_witness:
  "auth_valid (payme_verify_webhook_auth
      (str_lit ''Basic '' @ str_lit ''bWVyY2hhbnRfaWQ6c2VjcmV0X2tleQ=='') (str_lit ''secret_key''))
   \<and> auth_decoded_auth (payme_verify_webhook_auth
      (str_lit ''Basic '' @ str_lit ''bWVyY2hhbnRfaWQ6c2VjcmV0X2tleQ=='') (str_lit ''secret_key''))
     = Some (str_lit ''merchant_id:secret_key'')
   \<and> \<not> auth_valid (payme_verify_webhook_auth
      (str_lit ''Basic '' @ str_lit ''bWVyY2hhbnRfaWQ6c2VjcmV0X2tleQ=='') (str_lit ''other''))
   \<and> auth_decoded_auth (payme_verify_webhook_auth
      (str_lit ''Basic '' @ str_lit ''bWVyY2hhbnRfaWQ6c2VjcmV0X2tleQ=='') (str_lit ''other''))
     = Some (str_lit ''[hidden]'')"
proof -
  have h1: "32 \<notin> set (str_lit ''bWVyY2hhbnRfaWQ6c2VjcmV0X2tleQ=='')"
    by (simp add: str_lit_def)
  have h2: "b64decode (str_lit ''bWVyY2hhbnRfaWQ6c2VjcmV0X2tleQ=='')
              = Inr (map of_char ''merchant_id:secret_key'')"
    by (simp add: str_lit_def b64decode_def b64_value_def b64_pad_def)
  have h3: "bytes_decode (map of_char ''merchant_id:secret_key'')
              = Inr (str_lit ''merchant_id:secret_key'')"
    by (simp add: str_lit_def)
  have yes: "contains (str_lit ''merchant_id:secret_key'') (str_lit ''secret_key'')"
    by (simp add: str_lit_def startswith_def)
  have no: "\<not> contains (str_lit ''merchant_id:secret_key'') (str_lit ''other'')"
    by (simp add: str_lit_def startswith_def)
  show ?thesis
    using payme_verify_webhook_auth_substring [OF h1 h2 h3, of "str_lit ''secret_key''"]
      payme_verify_webhook_auth_substring [OF h1 h2 h3, of "str_lit ''other''"]
      yes no
    by (simp add: contains_iff)
qed

text \<open>
  C9. With the empty string as merchant key, every header \<open>"Basic <token>"\<close> whose token
  decodes to a string is valid, and the decoded string is returned.
\<close>

theorem payme_verify_webhook_auth_empty_key:
  assumes "32 \<notin> set token"
    and "b64decode token = Inr raw"
    and "bytes_decode raw = Inr d"
  shows "auth_valid (payme_verify_webhook_auth (str_lit ''Basic '' @ token) [])
       \<and> auth_decoded_auth (payme_verify_webhook_auth (str_lit ''Basic '' @ token) []) = Some d"
  using payme_auth_decoded [OF startswith_Basic_append token_of_basic_header [OF assms(1)]
      assms(2) assms(3), of "[]"]
  by (simp add: contains_empty)

theorem payme_verify_webhook_auth_empty_key_witness:
  "auth_valid (payme_verify_webhook_auth
      (str_lit ''Basic '' @ str_lit ''bWVyY2hhbnRfaWQ6c2VjcmV0X2tleQ=='') [])
   \<and> auth_decoded_auth (payme_verify_webhook_auth
      (str_lit ''Basic '' @ str_lit ''bWVyY2hhbnRfaWQ6c2VjcmV0X2tleQ=='') [])
     = Some (str_lit ''merchant_id:secret_key'')"
proof -
  have h1: "32 \<notin> set (str_lit ''bWVyY2hhbnRfaWQ6c2VjcmV0X2tleQ=='')"
    by (simp add: str_lit_def)
  have h2: "b64decode (str_lit ''bWVyY2hhbnRfaWQ6c2VjcmV0X2tleQ=='')
              = Inr (map of_char ''merchant_id:secret_key'')"
    by (simp add: str_lit_def b64decode_def b64_value_def b64_pad_def)
  have h3: "bytes_decode (map of_char ''merchant_id:secret_key'')
              = Inr (str_lit ''merchant_id:secret_key'')"
    by (simp add: str_lit_def)
  show ?thesis
    using payme_verify_webhook_auth_empty_key [OF h1 h2 h3] by simp
qed

subsection \<open>Click: invoice URL\<close>

lemma click_invoice_url:
  "inv_invoice_url (click_generate_invoice_url service_id merchant_id amount transaction_param
       return_url merchant_user_id is_production) =
     str_lit ''https://my.click.uz/services/pay'' @ str_lit ''?''
     @ str_lit ''service_id'' @ str_lit ''='' @ service_id @ str_lit ''&''
     @ str_lit ''merchant_id'' @ str_lit ''='' @ merchant_id @ str_lit ''&''
     @ str_lit ''amount'' @ str_lit ''='' @ float_repr amount @ str_lit ''&''
     @ str_lit ''transaction_param'' @ str_lit ''='' @ transaction_param @ str_lit ''&''
     @ str_lit ''return_url'' @ str_lit ''='' @ return_url
     @ (case merchant_user_id of
          None \<Rightarrow> []
        | Some u \<Rightarrow>
            if u = [] then []
            else str_lit ''&'' @ str_lit ''merchant_user_id'' @ str_lit ''='' @ u)"
proof -
  have neq: "str_lit ''service_id'' \<noteq> str_lit ''merchant_user_id''"
    "str_lit ''merchant_id'' \<noteq> str_lit ''merchant_user_id''"
    "str_lit ''amount'' \<noteq> str_lit ''merchant_user_id''"
    "str_lit ''transaction_param'' \<noteq> str_lit ''merchant_user_id''"
    "str_lit ''return_url'' \<noteq> str_lit ''merchant_user_id''"
    by (simp_all add: str_lit_def)
  show ?thesis
    by (cases merchant_user_id) (simp_all add: click_generate_invoice_url_def neq)
qed

text \<open>
  C8. The invoice URL is the endpoint \<open>https://my.click.uz/services/pay\<close>, the same for
  both environments, then \<open>?\<close>, then the pairs \<open>key=value\<close> joined with \<open>&\<close> in the order
  service_id, merchant_id, amount, transaction_param, return_url; merchant_user_id
  follows last when it is given and not empty, and is left out otherwise. The amount
  is written as the \<open>repr\<close> of the float.
\<close>

theorem click_generate_invoice_url_format:
  "inv_invoice_url (click_generate_invoice_url service_id merchant_id amount transaction_param
       return_url merchant_user_id is_production) =
     str_lit ''https://my.click.uz/services/pay'' @ str_lit ''?''
     @ join (str_lit ''&'')
         ([str_lit ''service_id='' @ service_id,
           str_lit ''merchant_id='' @ merchant_id,
           str_lit ''amount='' @ float_repr amount,
           str_lit ''transaction_param='' @ transaction_param,
           str_lit ''return_url='' @ return_url]
          @ (case merchant_user_id of
               None \<Rightarrow> []
             | Some u \<Rightarrow> if u = [] then [] else [str_lit ''merchant_user_id='' @ u]))"
  by (cases merchant_user_id) (simp_all add: click_invoice_url str_lit_def)

theorem click_generate_invoice_url_format_witness:
  "inv_invoice_url (click_generate_invoice_url (str_lit ''12345'') (str_lit ''67890'')
       (Finite False 150000) (str_lit ''booking_456'') (str_lit ''https://myapp.com/cb'')
       (Some (str_lit ''u1'')) True) =
     str_lit ''https://my.click.uz/services/pay?service_id=12345&merchant_id=67890''
     @ str_lit ''&amount='' @ float_repr (Finite False 150000)
     @ str_lit ''&transaction_param=booking_456&return_url=https://myapp.com/cb''
     @ str_lit ''&merchant_user_id=u1''
   \<and> inv_invoice_url (click_generate_invoice_url (str_lit ''12345'') (str_lit ''67890'')
       (Finite False 150000) (str_lit ''booking_456'') (str_lit ''https://myapp.com/cb'')
       None False) =
     str_lit ''https://my.click.uz/services/pay?service_id=12345&merchant_id=67890''
     @ str_lit ''&amount='' @ float_repr (Finite False 150000)
     @ str_lit ''&transaction_param=booking_456&return_url=https://myapp.com/cb''"
  using click_generate_invoice_url_format [of "str_lit ''12345''" "str_lit ''67890''"
      "Finite False 150000" "str_lit ''booking_456''" "str_lit ''https://myapp.com/cb''"
      "Some (str_lit ''u1'')" True]
    click_generate_invoice_url_format [of "str_lit ''12345''" "str_lit ''67890''"
      "Finite False 150000" "str_lit ''booking_456''" "str_lit ''https://myapp.com/cb''"
      None False]
  by (simp add: str_lit_def)

text \<open>
  C10. The empty string as merchant_user_id gives the same result, and so the same URL,
  as no merchant_user_id: the key is left out of the query string.
\<close>

theorem click_generate_invoice_url_empty_user:
  "click_generate_invoice_url service_id merchant_id amount transaction_param return_url
       (Some []) is_production =
   click_generate_invoice_url service_id merchant_id amount transaction_param return_url
       None is_production"
  by (simp add: click_generate_invoice_url_def)

theorem click_generate_invoice_url_empty_user_witness:
  "inv_invoice_url (click_generate_invoice_url (str_lit ''12345'') (str_lit ''67890'')
       (Finite False 150000) (str_lit ''booking_456'') (str_lit ''https://myapp.com/cb'')
       (Some []) False) =
   inv_invoice_url (click_generate_invoice_url (str_lit ''12345'') (str_lit ''67890'')
       (Finite False 150000) (str_lit ''booking_456'') (str_lit ''https://myapp.com/cb'')
       None False)"
  using click_generate_invoice_url_empty_user [of "str_lit ''12345''" "str_lit ''67890''"
      "Finite False 150000" "str_lit ''booking_456''" "str_lit ''https://myapp.com/cb''" False]
  by simp

end
